theory Spec2Isabelle
  imports Complex_Main
begin

section \<open>Values, records and data frames\<close>

text \<open>
  The pipeline of \<^verbatim>\<open>etl.py\<close> reads line-delimited JSON files with
  \<^verbatim>\<open>pd.read_json(filepath, lines=True)\<close> and hands the cells of the
  resulting table to a database cursor. A cell is a JSON scalar: null (which the table
  shows as NaN or NaT), a string or a number; \<open>JTimestamp\<close> is the cell that
  \<^verbatim>\<open>pd.to_datetime\<close> produces, holding the milliseconds since the epoch.
  Numbers are one constructor: the table may widen an integer column to floating point,
  and the model does not tell the two apart.
\<close>

datatype jval = JNull | JStr string | JNum real | JTimestamp real

text \<open>One line of a file is a JSON object: its keys with their values, in order.\<close>

type_synonym json_record = "(string \<times> jval) list"

text \<open>
  A node of the file system: a regular file whose content either is line-delimited JSON
  objects or is not (\<open>None\<close>), or a directory (readable or not) with its named
  entries in listing order.
\<close>

datatype node = File "json_record list option" | Dir bool "(string \<times> node) list"

text \<open>
  The exceptions the pipeline can end with. \<open>ParseError\<close> is the
  \<^verbatim>\<open>ValueError\<close> of \<^verbatim>\<open>pd.read_json\<close> on a file that is not
  line-delimited JSON, \<open>PersistenceError\<close> any \<^verbatim>\<open>psycopg2.Error\<close> of the
  cursor; the others carry Python's names.
\<close>

datatype error =
    ParseError
  | KeyError string
  | IndexError
  | AttributeError string
  | ValueError
  | OutOfBoundsDatetime
  | IsADirectoryError
  | PersistenceError

text \<open>Sequencing of steps that may raise: the first exception ends the computation.\<close>

definition bind_err :: "error + 'a \<Rightarrow> ('a \<Rightarrow> error + 'b) \<Rightarrow> error + 'b" where
  "bind_err m f = (case m of Inl e \<Rightarrow> Inl e | Inr x \<Rightarrow> f x)"

text \<open>
  A row of a data frame gives every column label a cell; a label the row's JSON object
  lacks is null. When a key is repeated in an object the last occurrence counts.
\<close>

type_synonym row = "string \<Rightarrow> jval"

record dataframe =
  columns :: "string list"
  rows :: "row list"

definition to_row :: "json_record \<Rightarrow> row" where
  "to_row r = (\<lambda>c. case map_of (rev r) c of None \<Rightarrow> JNull | Some v \<Rightarrow> v)"

text \<open>
  \<^verbatim>\<open>pd.read_json(filepath, lines=True)\<close>: the columns are the keys of all the
  records of the file, each once, in the order of their first appearance. The cells are
  taken as the file has them: the type inference of \<^verbatim>\<open>read_json\<close> (a column of
  strings that all read as numbers becomes a column of numbers) is not modelled.
\<close>

definition read_json :: "node \<Rightarrow> error + dataframe" where
  "read_json n =
     (case n of
        Dir _ _ \<Rightarrow> Inl IsADirectoryError
      | File None \<Rightarrow> Inl ParseError
      | File (Some recs) \<Rightarrow>
          Inr \<lparr>columns = rev (remdups (rev (concat (map (map fst) recs)))),
               rows = map to_row recs\<rparr>)"

text \<open>
  \<^verbatim>\<open>df[labels]\<close> with a list of labels raises \<^verbatim>\<open>KeyError\<close> for a
  label that is not a column; \<^verbatim>\<open>df[c]\<close> with one label likewise.
\<close>

fun require_columns :: "dataframe \<Rightarrow> string list \<Rightarrow> error + unit" where
  "require_columns df [] = Inr ()"
| "require_columns df (c # cs) =
     (if c \<in> set (columns df) then require_columns df cs else Inl (KeyError c))"

definition project :: "string list \<Rightarrow> row \<Rightarrow> jval list" where
  "project labels r = map r labels"

text \<open>\<^verbatim>\<open>.values[0]\<close>: the first row, \<^verbatim>\<open>IndexError\<close> when there is none.\<close>

definition values0 :: "'a list \<Rightarrow> error + 'a" where
  "values0 xs = (case xs of [] \<Rightarrow> Inl IndexError | x # _ \<Rightarrow> Inr x)"

section \<open>The cursor\<close>

text \<open>
  The statements of \<^verbatim>\<open>sql_queries\<close> that \<^verbatim>\<open>etl.py\<close> executes. Their SQL
  text is not part of \<^verbatim>\<open>etl.py\<close>: the store that runs them is a parameter of
  the model, a function from a statement, its parameters and the store's state to an
  exception or the new state with the rows the statement returned.
\<close>

datatype stmt =
    song_table_insert
  | artist_table_insert
  | time_table_insert
  | user_table_insert
  | songplay_table_insert
  | song_select

type_synonym 'st database = "stmt \<Rightarrow> jval list \<Rightarrow> 'st \<Rightarrow> error + ('st \<times> jval list list)"

text \<open>
  A cursor: the store as the open transaction sees it, the statements executed so far with
  their parameters (oldest first), and the rows of the last statement not yet fetched.
\<close>

record 'st cursor =
  store :: 'st
  executed :: "(stmt \<times> jval list) list"
  pending :: "jval list list"

definition cur_execute ::
  "'st database \<Rightarrow> stmt \<Rightarrow> jval list \<Rightarrow> 'st cursor \<Rightarrow> error + 'st cursor" where
  "cur_execute db s params cur =
     (case db s params (store cur) of
        Inl e \<Rightarrow> Inl e
      | Inr (st, res) \<Rightarrow>
          Inr (cur\<lparr>store := st, executed := executed cur @ [(s, params)], pending := res\<rparr>))"

definition fetchone :: "'st cursor \<Rightarrow> jval list option \<times> 'st cursor" where
  "fetchone cur =
     (case pending cur of
        [] \<Rightarrow> (None, cur)
      | r # rs \<Rightarrow> (Some r, cur\<lparr>pending := rs\<rparr>))"

section \<open>process_song_file\<close>

definition song_columns :: "string list" where
  "song_columns = [''song_id'', ''title'', ''artist_id'', ''year'', ''duration'']"

definition artist_columns :: "string list" where
  "artist_columns =
     [''artist_id'', ''artist_name'', ''artist_location'', ''artist_latitude'',
      ''artist_longitude'']"

definition process_song_file :: "'st database \<Rightarrow> 'st cursor \<Rightarrow> node \<Rightarrow> error + 'st cursor" where
  "process_song_file db cur filepath =
     bind_err (read_json filepath) (\<lambda>df.
     bind_err (require_columns df song_columns) (\<lambda>_.
     bind_err (values0 (map (project song_columns) (rows df))) (\<lambda>song_data.
     bind_err (cur_execute db song_table_insert song_data cur) (\<lambda>cur1.
     bind_err (require_columns df artist_columns) (\<lambda>_.
     bind_err (values0 (map (project artist_columns) (rows df))) (\<lambda>artist_data.
     cur_execute db artist_table_insert artist_data cur1))))))"

section \<open>Calendar fields of a timestamp\<close>

text \<open>
  \<^verbatim>\<open>pd.to_datetime(df['ts'], unit='ms')\<close> reads a number as milliseconds since
  1970-01-01 00:00 UTC and null as NaT; a timestamp must fit 64 bits of nanoseconds. A
  string cell is taken to be text that is no number, which pandas refuses.
\<close>

definition to_datetime :: "jval \<Rightarrow> error + jval" where
  "to_datetime v =
     (case v of
        JNull \<Rightarrow> Inr JNull
      | JStr _ \<Rightarrow> Inl ValueError
      | JNum ms \<Rightarrow>
          (if \<bar>ms\<bar> \<le> 9223372036854775807 / 1000000 then Inr (JTimestamp ms)
           else Inl OutOfBoundsDatetime)
      | JTimestamp ms \<Rightarrow> Inr (JTimestamp ms))"

text \<open>
  The accessors \<^verbatim>\<open>.dt.hour\<close>, \<^verbatim>\<open>.dt.day\<close>, \<^verbatim>\<open>.dt.week\<close>,
  \<^verbatim>\<open>.dt.month\<close>, \<^verbatim>\<open>.dt.year\<close> and \<^verbatim>\<open>.dt.weekday\<close> of pandas, on
  the proleptic Gregorian calendar in UTC: the week is the ISO 8601 week number, the
  weekday counts from Monday = 0 to Sunday = 6.
\<close>

definition epoch_seconds :: "real \<Rightarrow> int" where
  "epoch_seconds ms = \<lfloor>ms / 1000\<rfloor>"

definition epoch_days :: "real \<Rightarrow> int" where
  "epoch_days ms = epoch_seconds ms div 86400"

definition dt_hour :: "real \<Rightarrow> int" where
  "dt_hour ms = (epoch_seconds ms mod 86400) div 3600"

text \<open>Year, month and day of the day \<open>z\<close> days after 1970-01-01.\<close>

definition civil_from_days :: "int \<Rightarrow> int \<times> int \<times> int" where
  "civil_from_days z =
     (let z1 = z + 719468;
          era = z1 div 146097;
          doe = z1 mod 146097;
          yoe = (doe - doe div 1460 + doe div 36524 - doe div 146096) div 365;
          doy = doe - (365 * yoe + yoe div 4 - yoe div 100);
          mp = (5 * doy + 2) div 153;
          d = doy - (153 * mp + 2) div 5 + 1;
          m = (if mp < 10 then mp + 3 else mp - 9);
          y = yoe + era * 400 + (if m \<le> 2 then 1 else 0)
      in (y, m, d))"

text \<open>The number of days from 1970-01-01 to the given day.\<close>

definition days_from_civil :: "int \<Rightarrow> int \<Rightarrow> int \<Rightarrow> int" where
  "days_from_civil y m d =
     (let y1 = (if m \<le> 2 then y - 1 else y);
          era = y1 div 400;
          yoe = y1 mod 400;
          doy = (153 * (if m > 2 then m - 3 else m + 9) + 2) div 5 + d - 1;
          doe = yoe * 365 + yoe div 4 - yoe div 100 + doy
      in era * 146097 + doe - 719468)"

definition dt_year :: "real \<Rightarrow> int" where
  "dt_year ms = fst (civil_from_days (epoch_days ms))"

definition dt_month :: "real \<Rightarrow> int" where
  "dt_month ms = fst (snd (civil_from_days (epoch_days ms)))"

definition dt_day :: "real \<Rightarrow> int" where
  "dt_day ms = snd (snd (civil_from_days (epoch_days ms)))"

text \<open>The weekday of the day \<open>z\<close> days after 1970-01-01, a Thursday.\<close>

definition weekday_of :: "int \<Rightarrow> int" where
  "weekday_of z = (z + 3) mod 7"

definition dt_weekday :: "real \<Rightarrow> int" where
  "dt_weekday ms = weekday_of (epoch_days ms)"

text \<open>
  A year has 53 ISO weeks when it starts on a Thursday, or is a leap year starting on a
  Wednesday; \<open>iso_p\<close> is the weekday of its 31 December (Sunday = 0).
\<close>

definition iso_p :: "int \<Rightarrow> int" where
  "iso_p y = (y + y div 4 - y div 100 + y div 400) mod 7"

definition iso_weeks_in_year :: "int \<Rightarrow> int" where
  "iso_weeks_in_year y = (if iso_p y = 4 \<or> iso_p (y - 1) = 3 then 53 else 52)"

text \<open>
  The ISO week of a day, from its ordinal in the year and its weekday: week 0 is the last
  week of the year before, and a week past the year's last is week 1 of the next.
\<close>

definition iso_week_of :: "int \<Rightarrow> int" where
  "iso_week_of z =
     (let y = fst (civil_from_days z);
          ordinal = z - days_from_civil y 1 1 + 1;
          w = (ordinal - (weekday_of z + 1) + 10) div 7
      in if w < 1 then iso_weeks_in_year (y - 1)
         else if w > iso_weeks_in_year y then 1
         else w)"

definition dt_week :: "real \<Rightarrow> int" where
  "dt_week ms = iso_week_of (epoch_days ms)"

text \<open>
  One row of \<^verbatim>\<open>time_df\<close>: the timestamp with its fields, in the order of
  \<^verbatim>\<open>column_labels\<close>; the fields of NaT are NaN.
\<close>

definition time_data :: "row \<Rightarrow> jval list" where
  "time_data r =
     (case r ''ts'' of
        JTimestamp ms \<Rightarrow>
          [JTimestamp ms, JNum (of_int (dt_hour ms)), JNum (of_int (dt_day ms)),
           JNum (of_int (dt_week ms)), JNum (of_int (dt_month ms)),
           JNum (of_int (dt_year ms)), JNum (of_int (dt_weekday ms))]
      | _ \<Rightarrow> replicate 7 JNull)"

section \<open>process_log_file\<close>

text \<open>A \<^verbatim>\<open>for\<close> loop whose body may raise: the first exception ends it.\<close>

fun for_each :: "('a \<Rightarrow> 's \<Rightarrow> error + 's) \<Rightarrow> 'a list \<Rightarrow> 's \<Rightarrow> error + 's" where
  "for_each body [] s = Inr s"
| "for_each body (x # xs) s = bind_err (body x s) (for_each body xs)"

text \<open>\<^verbatim>\<open>df = df[df['page'] == 'NextSong']\<close>\<close>

definition next_song :: "row \<Rightarrow> bool" where
  "next_song r = (r ''page'' = JStr ''NextSong'')"

text \<open>\<^verbatim>\<open>df['ts'] = pd.to_datetime(df['ts'], unit='ms')\<close>, cell by cell.\<close>

fun convert_ts :: "row list \<Rightarrow> error + row list" where
  "convert_ts [] = Inr []"
| "convert_ts (r # rs) =
     bind_err (to_datetime (r ''ts'')) (\<lambda>t.
     bind_err (convert_ts rs) (\<lambda>rs'. Inr (r(''ts'' := t) # rs')))"

definition user_columns :: "string list" where
  "user_columns = [''userId'', ''firstName'', ''lastName'', ''gender'', ''level'']"

text \<open>
  \<^verbatim>\<open>row.label\<close> on a row of \<^verbatim>\<open>df.iterrows()\<close> raises
  \<^verbatim>\<open>AttributeError\<close> when the frame has no such column.
\<close>

fun getattrs :: "string list \<Rightarrow> row \<Rightarrow> string list \<Rightarrow> error + jval list" where
  "getattrs cols r [] = Inr []"
| "getattrs cols r (c # cs) =
     (if c \<in> set cols then bind_err (getattrs cols r cs) (\<lambda>vs. Inr (r c # vs))
      else Inl (AttributeError c))"

text \<open>
  \<^verbatim>\<open>if results: songid, artistid = results\<close> and
  \<^verbatim>\<open>else: songid, artistid = None, None\<close>: a fetched row is a tuple, false when
  empty, and unpacking it into two names raises \<^verbatim>\<open>ValueError\<close> unless it has
  two columns.
\<close>

definition unpack_results :: "jval list option \<Rightarrow> error + (jval \<times> jval)" where
  "unpack_results results =
     (case results of
        None \<Rightarrow> Inr (JNull, JNull)
      | Some [] \<Rightarrow> Inr (JNull, JNull)
      | Some [songid, artistid] \<Rightarrow> Inr (songid, artistid)
      | Some _ \<Rightarrow> Inl ValueError)"

text \<open>Lines 73 to 79: the lookup of one event in the catalog.\<close>

definition resolve ::
  "'st database \<Rightarrow> string list \<Rightarrow> row \<Rightarrow> 'st cursor \<Rightarrow> error + ((jval \<times> jval) \<times> 'st cursor)" where
  "resolve db cols r cur =
     bind_err (getattrs cols r [''song'', ''artist'', ''length'']) (\<lambda>key.
     bind_err (cur_execute db song_select key cur) (\<lambda>cur1.
     bind_err (unpack_results (fst (fetchone cur1))) (\<lambda>ids.
     Inr (ids, snd (fetchone cur1)))))"

text \<open>The body of the loop of lines 70 to 83.\<close>

definition songplay_step ::
  "'st database \<Rightarrow> string list \<Rightarrow> row \<Rightarrow> 'st cursor \<Rightarrow> error + 'st cursor" where
  "songplay_step db cols r cur =
     bind_err (resolve db cols r cur) (\<lambda>(ids, cur2).
     bind_err (getattrs cols r [''ts'', ''userId'', ''level'']) (\<lambda>front.
     bind_err (getattrs cols r [''sessionId'', ''location'', ''userAgent'']) (\<lambda>rear.
     cur_execute db songplay_table_insert (front @ [fst ids, snd ids] @ rear) cur2)))"

definition process_log_file :: "'st database \<Rightarrow> 'st cursor \<Rightarrow> node \<Rightarrow> error + 'st cursor" where
  "process_log_file db cur filepath =
     bind_err (read_json filepath) (\<lambda>df.
     bind_err (require_columns df [''page'']) (\<lambda>_.
     bind_err (require_columns df [''ts'']) (\<lambda>_.
     bind_err (convert_ts (filter next_song (rows df))) (\<lambda>events.
     bind_err (for_each (cur_execute db time_table_insert) (map time_data events) cur) (\<lambda>cur1.
     bind_err (require_columns df user_columns) (\<lambda>_.
     bind_err (for_each (cur_execute db user_table_insert) (map (project user_columns) events) cur1)
       (\<lambda>cur2.
     for_each (songplay_step db (columns df)) events cur2)))))))"

section \<open>process_data\<close>

text \<open>
  \<^verbatim>\<open>os.walk(filepath)\<close> visits a directory and then, in listing order, the
  directories in it. It ignores every error of listing a directory (its
  \<^verbatim>\<open>onerror\<close> is left \<^verbatim>\<open>None\<close>): a path that is missing, is a file or
  cannot be read yields nothing. Paths are taken as given: \<^verbatim>\<open>os.path.abspath\<close>
  does not change which file a path names, and the file system does not change during a
  run, so a discovered path is carried with the node it names.
\<close>

definition path_join :: "string \<Rightarrow> string \<Rightarrow> string" where
  "path_join d n = d @ ''/'' @ n"

fun walk :: "string \<Rightarrow> node \<Rightarrow> (string \<times> (string \<times> node) list) list" where
  "walk dir (File content) = []"
| "walk dir (Dir readable entries) =
     (if readable
      then (dir, entries) # concat (map (\<lambda>e. walk (path_join dir (fst e)) (snd e)) entries)
      else [])"

text \<open>
  \<^verbatim>\<open>glob.glob(os.path.join(root, '*.json'))\<close>: the entries of the directory whose
  name ends in \<^verbatim>\<open>.json\<close>, files and directories alike; a pattern that does not
  start with a dot matches no name that starts with one. Directory names are taken to hold
  none of the characters \<^verbatim>\<open>*?[\<close> that \<^verbatim>\<open>glob\<close> reads as a pattern.
\<close>

definition glob_json :: "string \<Rightarrow> bool" where
  "glob_json name =
     (take 1 name \<noteq> ''.'' \<and> drop (length name - 5) name = ''.json'')"

definition glob_dir :: "string \<times> (string \<times> node) list \<Rightarrow> (string \<times> node) list" where
  "glob_dir d =
     map (\<lambda>e. (path_join (fst d) (fst e), snd e)) (filter (\<lambda>e. glob_json (fst e)) (snd d))"

type_synonym filesystem = "string \<Rightarrow> node option"

definition all_files :: "filesystem \<Rightarrow> string \<Rightarrow> (string \<times> node) list" where
  "all_files fs filepath =
     (case fs filepath of
        None \<Rightarrow> []
      | Some n \<Rightarrow> concat (map glob_dir (walk filepath n)))"

text \<open>
  What \<^verbatim>\<open>process_data\<close> prints: \<^verbatim>\<open>'{} files found in {}'\<close> and
  \<^verbatim>\<open>'{}/{} files processed.'\<close> with their arguments.
\<close>

datatype message = files_found nat string | files_processed nat nat

text \<open>
  The connection with its cursor: the cursor, the store as of the last
  \<^verbatim>\<open>conn.commit()\<close>, and the lines printed so far.
\<close>

record 'st world =
  cursor_state :: "'st cursor"
  committed :: 'st
  printed :: "message list"

text \<open>
  The loop of lines 112 to 115. An exception of the handler leaves the loop and
  \<^verbatim>\<open>process_data\<close>: the result is the world at the last commit with the
  exception (the writes of the failing handler were never committed).
\<close>

fun process_files ::
  "('st cursor \<Rightarrow> node \<Rightarrow> error + 'st cursor) \<Rightarrow> nat \<Rightarrow> nat \<Rightarrow> (string \<times> node) list \<Rightarrow>
   'st world \<Rightarrow> 'st world \<times> error option" where
  "process_files func num_files i [] w = (w, None)"
| "process_files func num_files i (datafile # rest) w =
     (case func (cursor_state w) (snd datafile) of
        Inl e \<Rightarrow> (w, Some e)
      | Inr c \<Rightarrow>
          process_files func num_files (Suc i) rest
            (w\<lparr>cursor_state := c, committed := store c,
               printed := printed w @ [files_processed i num_files]\<rparr>))"

definition process_data ::
  "('st cursor \<Rightarrow> node \<Rightarrow> error + 'st cursor) \<Rightarrow> filesystem \<Rightarrow> string \<Rightarrow> 'st world \<Rightarrow>
   'st world \<times> error option" where
  "process_data func fs filepath w =
     process_files func (length (all_files fs filepath)) 1 (all_files fs filepath)
       (w\<lparr>printed := printed w @ [files_found (length (all_files fs filepath)) filepath]\<rparr>)"

section \<open>The relational store\<close>

text \<open>
  Modelled from the spec: the store behind the statements of \<^verbatim>\<open>sql_queries\<close>,
  whose SQL text and table definitions are not in \<^verbatim>\<open>etl.py\<close>. The spec's
  data model has four dimension tables, each keyed by its identifier (Artist, Song and
  User by their identifier, Time by the timestamp itself), written by an upsert that
  overwrites the row of the same key, and the fact table Songplay, written by an insert
  that numbers its rows. Only the song and artist identifiers of a Songplay are
  nullable: a dimension row with a null identifier is refused. The lookup is an equality
  lookup on (title, artist name, duration) against the Song rows joined with the Artist
  row they reference; as in a relational store, null equals nothing. A statement given a
  wrong number of parameters is refused.
\<close>

record tables =
  artists :: "(jval \<times> jval \<times> jval \<times> jval \<times> jval) list"
  songs :: "(jval \<times> jval \<times> jval \<times> jval \<times> jval) list"
  users :: "(jval \<times> jval \<times> jval \<times> jval \<times> jval) list"
  time_rows :: "(jval \<times> jval list) list"
  songplays :: "(nat \<times> jval list) list"

fun upsert :: "'k \<times> 'v \<Rightarrow> ('k \<times> 'v) list \<Rightarrow> ('k \<times> 'v) list" where
  "upsert kv [] = [kv]"
| "upsert kv (kv' # t) = (if fst kv = fst kv' then kv # t else kv' # upsert kv t)"

definition sql_eq :: "jval \<Rightarrow> jval \<Rightarrow> bool" where
  "sql_eq x y = (x \<noteq> JNull \<and> y \<noteq> JNull \<and> x = y)"

text \<open>
  The joined catalog: every Song row with the Artist row its artist identifier names, as
  (song id, title, duration, artist id, artist name).
\<close>

definition catalog :: "tables \<Rightarrow> (jval \<times> jval \<times> jval \<times> jval \<times> jval) list" where
  "catalog st =
     concat (map (\<lambda>(song_id, title, artist_id, year, duration).
       concat (map (\<lambda>(aid, name, location, latitude, longitude).
         if sql_eq artist_id aid then [(song_id, title, duration, aid, name)] else [])
         (artists st)))
       (songs st))"

definition matches :: "jval \<Rightarrow> jval \<Rightarrow> jval \<Rightarrow> jval \<times> jval \<times> jval \<times> jval \<times> jval \<Rightarrow> bool" where
  "matches title name duration c =
     (case c of (song_id, t, d, aid, n) \<Rightarrow>
        sql_eq t title \<and> sql_eq n name \<and> sql_eq d duration)"

definition sparkify_db :: "tables database" where
  "sparkify_db s params st =
     (case s of
        song_table_insert \<Rightarrow>
          (case params of
             [song_id, title, artist_id, year, duration] \<Rightarrow>
               if song_id = JNull then Inl PersistenceError
               else Inr (st\<lparr>songs := upsert (song_id, title, artist_id, year, duration) (songs st)\<rparr>, [])
           | _ \<Rightarrow> Inl PersistenceError)
      | artist_table_insert \<Rightarrow>
          (case params of
             [artist_id, name, location, latitude, longitude] \<Rightarrow>
               if artist_id = JNull then Inl PersistenceError
               else Inr (st\<lparr>artists := upsert (artist_id, name, location, latitude, longitude) (artists st)\<rparr>, [])
           | _ \<Rightarrow> Inl PersistenceError)
      | time_table_insert \<Rightarrow>
          (case params of
             [start_time, hour, day, week, month, year, weekday] \<Rightarrow>
               if start_time = JNull then Inl PersistenceError
               else Inr (st\<lparr>time_rows :=
                           upsert (start_time, [hour, day, week, month, year, weekday]) (time_rows st)\<rparr>, [])
           | _ \<Rightarrow> Inl PersistenceError)
      | user_table_insert \<Rightarrow>
          (case params of
             [user_id, first_name, last_name, gender, level] \<Rightarrow>
               if user_id = JNull then Inl PersistenceError
               else Inr (st\<lparr>users := upsert (user_id, first_name, last_name, gender, level) (users st)\<rparr>, [])
           | _ \<Rightarrow> Inl PersistenceError)
      | songplay_table_insert \<Rightarrow>
          (case params of
             [start_time, user_id, level, song_id, artist_id, session_id, location, user_agent] \<Rightarrow>
               Inr (st\<lparr>songplays := songplays st @ [(Suc (length (songplays st)), params)]\<rparr>, [])
           | _ \<Rightarrow> Inl PersistenceError)
      | song_select \<Rightarrow>
          (case params of
             [title, name, duration] \<Rightarrow>
               Inr (st, map (\<lambda>(song_id, t, d, aid, n). [song_id, aid])
                          (filter (matches title name duration) (catalog st)))
           | _ \<Rightarrow> Inl PersistenceError))"

definition empty_tables :: tables where
  "empty_tables = \<lparr>artists = [], songs = [], users = [], time_rows = [], songplays = []\<rparr>"

definition new_cursor :: "'st \<Rightarrow> 'st cursor" where
  "new_cursor st = \<lparr>store = st, executed = [], pending = []\<rparr>"

definition new_world :: "'st \<Rightarrow> 'st world" where
  "new_world st = \<lparr>cursor_state = new_cursor st, committed = st, printed = []\<rparr>"

section \<open>Describing a run\<close>

text \<open>
  The definitions of this section are not part of \<^verbatim>\<open>etl.py\<close>: they name what a
  run did (the statements it executed, the rows it inserted), and the sample files, stores
  and file systems the claims are tried on.
\<close>

text \<open>
  What line 51 makes of a row when the conversion of its \<^verbatim>\<open>ts\<close> succeeds.
\<close>

definition stamp :: "row \<Rightarrow> row" where
  "stamp r = r(''ts'' := (case to_datetime (r ''ts'') of Inl e \<Rightarrow> JNull | Inr t \<Rightarrow> t))"

text \<open>
  The parameters of line 82 for an event and the identifiers the lookup gave, and the
  two statements one turn of the loop of lines 70 to 83 executes.
\<close>

definition songplay_data :: "row \<Rightarrow> jval \<times> jval \<Rightarrow> jval list" where
  "songplay_data r ids =
     project [''ts'', ''userId'', ''level''] r @ [fst ids, snd ids] @
     project [''sessionId'', ''location'', ''userAgent''] r"

definition songplay_trace :: "row \<Rightarrow> jval \<times> jval \<Rightarrow> (stmt \<times> jval list) list" where
  "songplay_trace r ids =
     [(song_select, project [''song'', ''artist'', ''length''] r),
      (songplay_table_insert, songplay_data r ids)]"

text \<open>
  The filtered events of a file with their timestamps converted, and the statements a
  run over them executes: the Time inserts, the User inserts, then lookup and Songplay
  insert event by event.
\<close>

definition events_of :: "json_record list \<Rightarrow> row list" where
  "events_of recs = map stamp (filter next_song (map to_row recs))"

definition log_trace :: "row list \<Rightarrow> (jval \<times> jval) list \<Rightarrow> (stmt \<times> jval list) list" where
  "log_trace events ids =
     map (\<lambda>r. (time_table_insert, time_data r)) events @
     map (\<lambda>r. (user_table_insert, project user_columns r)) events @
     concat (map2 songplay_trace events ids)"

text \<open>
  The statements executed between two states of a cursor, and the parameters of those
  among them that are a given statement.
\<close>

definition emitted :: "'st cursor \<Rightarrow> 'st cursor \<Rightarrow> (stmt \<times> jval list) list" where
  "emitted c c' = drop (length (executed c)) (executed c')"

definition inserted :: "stmt \<Rightarrow> 'st cursor \<Rightarrow> 'st cursor \<Rightarrow> jval list list" where
  "inserted s c c' = map snd (filter (\<lambda>x. fst x = s) (emitted c c'))"

text \<open>
  A catalog record, a second one, an activity event and a log of three events of which
  two are \<^verbatim>\<open>NextSong\<close> events.
\<close>

definition sample_song :: json_record where
  "sample_song =
     [(''song_id'', JStr ''S1''), (''title'', JStr ''Fake Song''), (''artist_id'', JStr ''A1''),
      (''year'', JNum 2001), (''duration'', JNum 200), (''artist_name'', JStr ''Fake Artist''),
      (''artist_location'', JStr ''Lisbon''), (''artist_latitude'', JNull),
      (''artist_longitude'', JNull), (''num_songs'', JNum 1)]"

definition sample_event :: "string \<Rightarrow> real \<Rightarrow> string \<Rightarrow> string \<Rightarrow> real \<Rightarrow> json_record" where
  "sample_event page ts song artist len =
     [(''artist'', JStr artist), (''firstName'', JStr ''Ada''), (''gender'', JStr ''F''),
      (''lastName'', JStr ''Lovelace''), (''length'', JNum len), (''level'', JStr ''free''),
      (''location'', JStr ''Porto''), (''page'', JStr page), (''sessionId'', JNum 7),
      (''song'', JStr song), (''ts'', JNum ts), (''userAgent'', JStr ''Mozilla''),
      (''userId'', JStr ''39'')]"

definition sample_log :: "json_record list" where
  "sample_log =
     [sample_event ''NextSong'' 1678887900000 ''Fake Song'' ''Fake Artist'' 200,
      sample_event ''Home'' 1678887901000 [] [] 0,
      sample_event ''NextSong'' 1678887902000 ''Unknown'' ''Nobody'' 1]"

definition other_song :: json_record where
  "other_song =
     [(''song_id'', JStr ''S2''), (''title'', JStr ''Second Song''), (''artist_id'', JStr ''A2''),
      (''year'', JNum 1999), (''duration'', JNum 180), (''artist_name'', JStr ''Other Artist''),
      (''artist_location'', JNull), (''artist_latitude'', JNum 38), (''artist_longitude'', JNum (-9))]"

text \<open>
  The identifiers of the first row of the joined catalog that matches, or two nulls.
\<close>

definition first_match :: "tables \<Rightarrow> jval \<Rightarrow> jval \<Rightarrow> jval \<Rightarrow> jval \<times> jval" where
  "first_match st title name duration =
     (case filter (matches title name duration) (catalog st) of
        [] \<Rightarrow> (JNull, JNull)
      | (song_id, t, d, aid, n) # _ \<Rightarrow> (song_id, aid))"

text \<open>
  The store after the sample catalog record was loaded into empty tables, and the columns
  of an activity log.
\<close>

definition fake_catalog :: tables where
  "fake_catalog = empty_tables
     \<lparr>artists := [(JStr ''A1'', JStr ''Fake Artist'', JStr ''Lisbon'', JNull, JNull)],
      songs := [(JStr ''S1'', JStr ''Fake Song'', JStr ''A1'', JNum 2001, JNum 200)]\<rparr>"

definition log_columns :: "string list" where
  "log_columns = map fst (sample_event [] 0 [] [] 0)"

text \<open>
  The states of the store reached from the empty tables by its statements; in all of
  them the Song identifiers are not null (\<open>keyed\<close>).
\<close>

inductive reachable :: "tables \<Rightarrow> bool" where
  reachable_empty: "reachable empty_tables"
| reachable_step: "reachable st \<Longrightarrow> sparkify_db s params st = Inr (st', res) \<Longrightarrow> reachable st'"

definition keyed :: "tables \<Rightarrow> bool" where
  "keyed st = (\<forall>x \<in> set (songs st). fst x \<noteq> JNull)"

text \<open>
  A directory of three catalog files of which the second is malformed, and the world
  after the first of them was committed.
\<close>

definition song_fs :: "json_record list option \<Rightarrow> filesystem" where
  "song_fs third = (\<lambda>p.
     if p = ''data/song_data''
     then Some (Dir True
       [(''a.json'', File (Some [sample_song])),
        (''b.json'', File None),
        (''c.json'', File third)])
     else None)"

definition first_committed :: "tables world" where
  "first_committed =
     \<lparr>cursor_state =
         \<lparr>store = fake_catalog,
          executed =
            [(song_table_insert,
              [JStr ''S1'', JStr ''Fake Song'', JStr ''A1'', JNum 2001, JNum 200]),
             (artist_table_insert,
              [JStr ''A1'', JStr ''Fake Artist'', JStr ''Lisbon'', JNull, JNull])],
          pending = []\<rparr>,
       committed = fake_catalog,
       printed = [files_found 3 ''data/song_data'', files_processed 1 3]\<rparr>"






section \<open>Properties\<close>

lemma bind_err_Inl: "bind_err (Inl e) f = Inl e"
  by (simp add: bind_err_def)

lemma bind_err_Inr: "bind_err (Inr x) f = f x"
  by (simp add: bind_err_def)

lemma bind_err_eq_Inr: "bind_err m f = Inr y \<longleftrightarrow> (\<exists>x. m = Inr x \<and> f x = Inr y)"
  by (cases m) (simp_all add: bind_err_def)

lemma cur_execute_executed:
  "cur_execute db s params c = Inr c' \<Longrightarrow> executed c' = executed c @ [(s, params)]"
  by (auto simp: cur_execute_def split: sum.splits)

lemma for_each_execute:
  "for_each (cur_execute db s) ps c = Inr c' \<Longrightarrow> executed c' = executed c @ map (Pair s) ps"
proof (induction ps arbitrary: c)
  case Nil
  then show ?case by simp
next
  case (Cons p ps)
  from Cons.prems obtain c1 where c1: "cur_execute db s p c = Inr c1"
    and rest: "for_each (cur_execute db s) ps c1 = Inr c'"
    by (auto simp: bind_err_eq_Inr)
  from Cons.IH [OF rest] cur_execute_executed [OF c1] show ?case by simp
qed

lemma convert_ts_stamp: "convert_ts rs = Inr rs' \<Longrightarrow> rs' = map stamp rs"
proof (induction rs arbitrary: rs')
  case Nil
  then show ?case by simp
next
  case (Cons r rs)
  from Cons.prems obtain t rs1 where t: "to_datetime (r ''ts'') = Inr t"
    and rs1: "convert_ts rs = Inr rs1" and eq: "rs' = r(''ts'' := t) # rs1"
    by (auto simp: bind_err_eq_Inr)
  from t have "stamp r = r(''ts'' := t)" by (simp add: stamp_def)
  with Cons.IH [OF rs1] eq show ?case by simp
qed

lemma getattrs_project: "getattrs cols r labels = Inr vs \<Longrightarrow> vs = project labels r"
  by (induction labels arbitrary: vs) (auto simp: bind_err_eq_Inr project_def split: if_splits)

lemma fetchone_executed: "executed (snd (fetchone c)) = executed c"
  by (simp add: fetchone_def split: list.splits)

lemma resolve_executed:
  assumes "resolve db cols r c = Inr (ids, c')"
  shows "executed c' = executed c @ [(song_select, project [''song'', ''artist'', ''length''] r)]"
proof -
  from assms obtain key c1 where key: "getattrs cols r [''song'', ''artist'', ''length''] = Inr key"
    and c1: "cur_execute db song_select key c = Inr c1" and c': "c' = snd (fetchone c1)"
    unfolding resolve_def by (auto simp: bind_err_eq_Inr)
  from getattrs_project [OF key] cur_execute_executed [OF c1] c' show ?thesis
    by (simp add: fetchone_executed)
qed

lemma songplay_step_executed:
  assumes "songplay_step db cols r c = Inr c'"
  shows "\<exists>ids. executed c' = executed c @ songplay_trace r ids"
proof -
  from assms obtain ids c2 front rear where res: "resolve db cols r c = Inr (ids, c2)"
    and front: "getattrs cols r [''ts'', ''userId'', ''level''] = Inr front"
    and rear: "getattrs cols r [''sessionId'', ''location'', ''userAgent''] = Inr rear"
    and ins: "cur_execute db songplay_table_insert (front @ [fst ids, snd ids] @ rear) c2 = Inr c'"
    unfolding songplay_step_def by (auto simp: bind_err_eq_Inr)
  from resolve_executed [OF res] getattrs_project [OF front] getattrs_project [OF rear]
    cur_execute_executed [OF ins]
  have "executed c' = executed c @ songplay_trace r ids"
    by (simp add: songplay_trace_def songplay_data_def)
  then show ?thesis ..
qed

lemma songplay_loop_executed:
  "for_each (songplay_step db cols) events c = Inr c' \<Longrightarrow>
   \<exists>ids. length ids = length events \<and>
     executed c' = executed c @ concat (map2 songplay_trace events ids)"
proof (induction events arbitrary: c)
  case Nil
  then show ?case by simp
next
  case (Cons r events)
  from Cons.prems obtain c1 where c1: "songplay_step db cols r c = Inr c1"
    and rest: "for_each (songplay_step db cols) events c1 = Inr c'"
    by (auto simp: bind_err_eq_Inr)
  from songplay_step_executed [OF c1] obtain i where i: "executed c1 = executed c @ songplay_trace r i"
    by blast
  from Cons.IH [OF rest] obtain ids where ids: "length ids = length events"
    "executed c' = executed c1 @ concat (map2 songplay_trace events ids)" by blast
  from i ids have "length (i # ids) = length (r # events) \<and>
     executed c' = executed c @ concat (map2 songplay_trace (r # events) (i # ids))"
    by simp
  then show ?case by blast
qed

lemma process_log_file_trace:
  assumes "process_log_file db c filepath = Inr c'"
  shows "\<exists>recs ids. filepath = File (Some recs) \<and> length ids = length (events_of recs) \<and>
     executed c' = executed c @ log_trace (events_of recs) ids"
proof -
  from assms obtain df events c1 c2 where df: "read_json filepath = Inr df"
    and ev: "convert_ts (filter next_song (rows df)) = Inr events"
    and t: "for_each (cur_execute db time_table_insert) (map time_data events) c = Inr c1"
    and u: "for_each (cur_execute db user_table_insert) (map (project user_columns) events) c1 = Inr c2"
    and s: "for_each (songplay_step db (columns df)) events c2 = Inr c'"
    unfolding process_log_file_def by (auto simp: bind_err_eq_Inr)
  from df obtain recs where recs: "filepath = File (Some recs)" and rws: "rows df = map to_row recs"
    by (auto simp: read_json_def split: node.splits option.splits)
  from convert_ts_stamp [OF ev] rws have events: "events = events_of recs"
    by (simp add: events_of_def)
  from songplay_loop_executed [OF s] obtain ids where ids: "length ids = length events"
    "executed c' = executed c2 @ concat (map2 songplay_trace events ids)" by blast
  from for_each_execute [OF t] for_each_execute [OF u] ids events
  have "executed c' = executed c @ log_trace (events_of recs) ids"
    by (simp add: log_trace_def comp_def)
  with recs ids(1) events show ?thesis by blast
qed

lemmas model_defs =
  process_log_file_def process_song_file_def read_json_def bind_err_def to_row_def
  cur_execute_def fetchone_def resolve_def songplay_step_def unpack_results_def
  next_song_def to_datetime_def time_data_def project_def user_columns_def
  song_columns_def artist_columns_def values0_def sparkify_db_def empty_tables_def
  new_cursor_def new_world_def catalog_def matches_def sql_eq_def
  sample_song_def sample_event_def sample_log_def

lemma sample_log_runs:
  "\<exists>c'. process_log_file sparkify_db (new_cursor empty_tables) (File (Some sample_log)) = Inr c'"
  by (simp add: model_defs)

lemma filter_songplay_traces:
  "filter (\<lambda>x. fst x = s) (concat (map2 songplay_trace events ids)) =
     (if s = song_select
      then map (\<lambda>r. (song_select, project [''song'', ''artist'', ''length''] r))
             (take (length ids) events)
      else if s = songplay_table_insert
      then map2 (\<lambda>r i. (songplay_table_insert, songplay_data r i)) events ids
      else [])"
proof (induction events arbitrary: ids)
  case Nil
  then show ?case by simp
next
  case (Cons r events)
  then show ?case by (cases ids) (auto simp: songplay_trace_def)
qed

lemma filter_log_trace:
  "length ids = length events \<Longrightarrow>
   map snd (filter (\<lambda>x. fst x = s) (log_trace events ids)) =
     (case s of
        time_table_insert \<Rightarrow> map time_data events
      | user_table_insert \<Rightarrow> map (project user_columns) events
      | song_select \<Rightarrow> map (project [''song'', ''artist'', ''length'']) events
      | songplay_table_insert \<Rightarrow> map2 songplay_data events ids
      | _ \<Rightarrow> [])"
proof -
  assume len: "length ids = length events"
  show ?thesis
    using len by (cases s) (auto simp: log_trace_def filter_songplay_traces filter_map comp_def)
qed

lemma inserted_append:
  "executed c' = executed c @ tr \<Longrightarrow> inserted s c c' = map snd (filter (\<lambda>x. fst x = s) tr)"
  by (simp add: inserted_def emitted_def)

lemma length_events_of:
  "length (events_of recs) = length (filter (\<lambda>r. to_row r ''page'' = JStr ''NextSong'') recs)"
  by (simp add: events_of_def filter_map comp_def next_song_def)

lemma emitted_append: "executed c' = executed c @ tr \<Longrightarrow> emitted c c' = tr"
  by (simp add: emitted_def)

lemma values0_eq_Inr: "values0 xs = Inr x \<longleftrightarrow> (\<exists>t. xs = x # t)"
  by (cases xs) (auto simp: values0_def)







lemma songplay_traces_nth:
  "length ids = length events \<Longrightarrow> i < length events \<Longrightarrow>
   concat (map2 songplay_trace events ids) ! (2 * i) =
     (song_select, project [''song'', ''artist'', ''length''] (events ! i)) \<and>
   concat (map2 songplay_trace events ids) ! (2 * i + 1) =
     (songplay_table_insert, songplay_data (events ! i) (ids ! i))"
proof (induction events ids arbitrary: i rule: list_induct2')
  case (4 r events x ids)
  show ?case
  proof (cases i)
    case 0
    then show ?thesis by (simp add: songplay_trace_def)
  next
    case (Suc j)
    with 4 show ?thesis by (simp add: songplay_trace_def)
  qed
qed simp_all

lemma length_songplay_traces:
  "length ids = length events \<Longrightarrow> length (concat (map2 songplay_trace events ids)) = 2 * length events"
  by (induction events ids rule: list_induct2') (simp_all add: songplay_trace_def)

lemma log_trace_nth:
  assumes len: "length ids = length events" and i: "i < length events"
  shows "log_trace events ids ! i = (time_table_insert, time_data (events ! i))"
    and "log_trace events ids ! (length events + i) =
           (user_table_insert, project user_columns (events ! i))"
    and "log_trace events ids ! (2 * length events + 2 * i) =
           (song_select, project [''song'', ''artist'', ''length''] (events ! i))"
    and "log_trace events ids ! (2 * length events + 2 * i + 1) =
           (songplay_table_insert, songplay_data (events ! i) (ids ! i))"
proof -
  show "log_trace events ids ! i = (time_table_insert, time_data (events ! i))"
    using i by (simp add: log_trace_def nth_append)
  show "log_trace events ids ! (length events + i) =
           (user_table_insert, project user_columns (events ! i))"
    using i by (simp add: log_trace_def nth_append)
  have k: "log_trace events ids ! (2 * length events + k) = concat (map2 songplay_trace events ids) ! k"
    for k by (simp add: log_trace_def nth_append)
  have "log_trace events ids ! (2 * length events + 2 * i) =
      concat (map2 songplay_trace events ids) ! (2 * i)"
    using k [of "2 * i"] by simp
  then show "log_trace events ids ! (2 * length events + 2 * i) =
           (song_select, project [''song'', ''artist'', ''length''] (events ! i))"
    using songplay_traces_nth [OF len i] by simp
  have "log_trace events ids ! (2 * length events + 2 * i + 1) =
      concat (map2 songplay_trace events ids) ! (2 * i + 1)"
    using k [of "2 * i + 1"] by (simp add: add.assoc)
  then show "log_trace events ids ! (2 * length events + 2 * i + 1) =
           (songplay_table_insert, songplay_data (events ! i) (ids ! i))"
    using songplay_traces_nth [OF len i] by simp
qed

lemma length_log_trace:
  "length ids = length events \<Longrightarrow> length (log_trace events ids) = 4 * length events"
  by (simp add: log_trace_def length_songplay_traces)




lemma dt_hour_range: "0 \<le> dt_hour ms \<and> dt_hour ms \<le> 23"
proof -
  let ?s = "epoch_seconds ms mod 86400"
  have lo: "0 \<le> ?s" and hi: "?s \<le> 86399" by simp_all
  from lo have "0 \<le> ?s div 3600" by (simp add: pos_imp_zdiv_nonneg_iff)
  moreover from hi have "?s div 3600 \<le> 86399 div 3600" by (rule zdiv_mono1) simp
  ultimately show ?thesis by (simp add: dt_hour_def)
qed

lemma dt_weekday_range: "0 \<le> dt_weekday ms \<and> dt_weekday ms \<le> 6"
proof -
  have "(epoch_days ms + 3) mod 7 < 7" by simp
  then show ?thesis by (simp add: dt_weekday_def weekday_of_def)
qed

lemma calendar_checks:
  "civil_from_days 0 = (1970, 1, 1) \<and> weekday_of 0 = 3 \<and> iso_week_of 0 = 1 \<and>
   civil_from_days (- 1) = (1969, 12, 31) \<and> weekday_of (- 1) = 2 \<and> iso_week_of (- 1) = 1 \<and>
   civil_from_days 11016 = (2000, 2, 29) \<and> weekday_of 11016 = 1 \<and> iso_week_of 11016 = 9 \<and>
   civil_from_days 11017 = (2000, 3, 1) \<and>
   civil_from_days 17896 = (2018, 12, 31) \<and> weekday_of 17896 = 0 \<and> iso_week_of 17896 = 1 \<and>
   civil_from_days 18627 = (2020, 12, 31) \<and> iso_week_of 18627 = 53 \<and>
   civil_from_days 18628 = (2021, 1, 1) \<and> weekday_of 18628 = 4 \<and> iso_week_of 18628 = 53 \<and>
   civil_from_days 18630 = (2021, 1, 3) \<and> weekday_of 18630 = 6 \<and> iso_week_of 18630 = 53 \<and>
   civil_from_days 18631 = (2021, 1, 4) \<and> iso_week_of 18631 = 1 \<and>
   days_from_civil 1970 1 1 = 0 \<and> days_from_civil 2000 2 29 = 11016 \<and>
   days_from_civil 2023 3 15 = 19431"
  by code_simp


lemma cur_execute_select:
  "cur_execute sparkify_db song_select [t, n, d] c =
     Inr (c\<lparr>executed := executed c @ [(song_select, [t, n, d])],
            pending := map (\<lambda>(song_id, t', d', aid, n'). [song_id, aid])
                         (filter (matches t n d) (catalog (store c)))\<rparr>)"
  by (simp add: cur_execute_def sparkify_db_def)

lemma resolve_first_match:
  assumes "resolve sparkify_db cols r c = Inr (ids, c')"
  shows "ids = first_match (store c) (r ''song'') (r ''artist'') (r ''length'') \<and> store c' = store c"
proof -
  from assms obtain key c1 where key: "getattrs cols r [''song'', ''artist'', ''length''] = Inr key"
    and c1: "cur_execute sparkify_db song_select key c = Inr c1"
    and ids: "unpack_results (fst (fetchone c1)) = Inr ids" and c': "c' = snd (fetchone c1)"
    unfolding resolve_def by (auto simp: bind_err_eq_Inr)
  from getattrs_project [OF key] have k: "key = [r ''song'', r ''artist'', r ''length'']"
    by (simp add: project_def)
  from c1 have c1': "c1 = c\<lparr>executed := executed c @ [(song_select, key)],
            pending := map (\<lambda>(song_id, t', d', aid, n'). [song_id, aid])
                         (filter (matches (r ''song'') (r ''artist'') (r ''length'')) (catalog (store c)))\<rparr>"
    unfolding k cur_execute_select by simp
  show ?thesis
  proof (cases "filter (matches (r ''song'') (r ''artist'') (r ''length'')) (catalog (store c))")
    case Nil
    with ids c' c1' show ?thesis
      by (simp add: first_match_def fetchone_def unpack_results_def)
  next
    case (Cons m ms)
    obtain song_id t d aid n where m: "m = (song_id, t, d, aid, n)" by (cases m) auto
    from Cons m ids c' c1' show ?thesis
      by (simp add: first_match_def fetchone_def unpack_results_def)
  qed
qed

lemma getattrs_ok: "set labels \<subseteq> set cols \<Longrightarrow> getattrs cols r labels = Inr (project labels r)"
  by (induction labels) (simp_all add: project_def bind_err_Inr)

lemma resolve_succeeds:
  assumes "{''song'', ''artist'', ''length''} \<subseteq> set cols"
  shows "\<exists>c'. resolve sparkify_db cols r c =
    Inr (first_match (store c) (r ''song'') (r ''artist'') (r ''length''), c')"
proof -
  from assms have g: "getattrs cols r [''song'', ''artist'', ''length''] =
      Inr [r ''song'', r ''artist'', r ''length'']"
    using getattrs_ok [of "[''song'', ''artist'', ''length'']" cols r] by (simp add: project_def)
  have "\<exists>ids c'. resolve sparkify_db cols r c = Inr (ids, c')"
  proof (cases "filter (matches (r ''song'') (r ''artist'') (r ''length'')) (catalog (store c))")
    case Nil
    then show ?thesis
      unfolding resolve_def g
      by (simp add: bind_err_Inr cur_execute_select fetchone_def unpack_results_def)
  next
    case (Cons m ms)
    obtain song_id t d aid n where m: "m = (song_id, t, d, aid, n)" by (cases m) auto
    from Cons m show ?thesis
      unfolding resolve_def g
      by (simp add: bind_err_Inr cur_execute_select fetchone_def unpack_results_def)
  qed
  then obtain ids c' where r: "resolve sparkify_db cols r c = Inr (ids, c')" by blast
  from resolve_first_match [OF r] r show ?thesis by blast
qed

lemma set_upsert: "set (upsert kv l) \<subseteq> insert kv (set l)"
  by (induction l) auto

lemma in_set_upsert: "x \<in> set (upsert kv l) \<Longrightarrow> x = kv \<or> x \<in> set l"
  using set_upsert [of kv l] by blast

lemma sparkify_db_keyed:
  assumes "sparkify_db s params st = Inr (st', res)" and "keyed st"
  shows "keyed st'"
proof (cases s)
  case song_table_insert
  with assms show ?thesis
    by (auto simp: sparkify_db_def keyed_def split: list.splits if_splits dest!: in_set_upsert)
next
  case artist_table_insert
  with assms show ?thesis
    by (auto simp: sparkify_db_def keyed_def split: list.splits if_splits)
next
  case time_table_insert
  with assms show ?thesis
    by (auto simp: sparkify_db_def keyed_def split: list.splits if_splits)
next
  case user_table_insert
  with assms show ?thesis
    by (auto simp: sparkify_db_def keyed_def split: list.splits if_splits)
next
  case songplay_table_insert
  with assms show ?thesis
    by (auto simp: sparkify_db_def keyed_def split: list.splits if_splits)
next
  case song_select
  with assms show ?thesis
    by (auto simp: sparkify_db_def keyed_def split: list.splits if_splits)
qed

lemma reachable_keyed: "reachable st \<Longrightarrow> keyed st"
proof (induction rule: reachable.induct)
  case reachable_empty
  show ?case by (simp add: keyed_def empty_tables_def)
next
  case (reachable_step st s params st' res)
  then show ?case by (auto intro: sparkify_db_keyed)
qed

lemma catalog_ids:
  "(song_id, t, d, aid, n) \<in> set (catalog st) \<Longrightarrow>
   song_id \<in> fst ` set (songs st) \<and> aid \<noteq> JNull"
  by (auto simp: catalog_def sql_eq_def split: if_splits) force

lemma first_match_paired:
  assumes "keyed st"
  shows "fst (first_match st t n d) = JNull \<longleftrightarrow> snd (first_match st t n d) = JNull"
proof (cases "filter (matches t n d) (catalog st)")
  case Nil
  then show ?thesis by (simp add: first_match_def)
next
  case (Cons m ms)
  obtain song_id t' d' aid n' where m: "m = (song_id, t', d', aid, n')" by (cases m) auto
  from Cons have "m \<in> set (filter (matches t n d) (catalog st))" by simp
  then have "m \<in> set (catalog st)" by simp
  from catalog_ids [OF this [unfolded m]] assms have "song_id \<noteq> JNull" "aid \<noteq> JNull"
    by (auto simp: keyed_def)
  with Cons m show ?thesis by (simp add: first_match_def)
qed

lemma cur_execute_reachable:
  "cur_execute sparkify_db s params c = Inr c' \<Longrightarrow> reachable (store c) \<Longrightarrow> reachable (store c')"
  by (auto simp: cur_execute_def split: sum.splits intro: reachable_step)

lemma for_each_execute_reachable:
  "for_each (cur_execute sparkify_db s) ps c = Inr c' \<Longrightarrow> reachable (store c) \<Longrightarrow>
   reachable (store c')"
proof (induction ps arbitrary: c)
  case Nil
  then show ?case by simp
next
  case (Cons p ps)
  from Cons.prems(1) obtain c1 where c1: "cur_execute sparkify_db s p c = Inr c1"
    and rest: "for_each (cur_execute sparkify_db s) ps c1 = Inr c'"
    by (auto simp: bind_err_eq_Inr)
  from cur_execute_reachable [OF c1 Cons.prems(2)] Cons.IH [OF rest] show ?case by blast
qed

lemma songplay_step_paired:
  assumes "songplay_step sparkify_db cols r c = Inr c'" and "reachable (store c)"
  shows "\<exists>ids. executed c' = executed c @ songplay_trace r ids \<and>
    (fst ids = JNull \<longleftrightarrow> snd ids = JNull) \<and> reachable (store c')"
proof -
  from assms(1) obtain ids c2 front rear where res: "resolve sparkify_db cols r c = Inr (ids, c2)"
    and front: "getattrs cols r [''ts'', ''userId'', ''level''] = Inr front"
    and rear: "getattrs cols r [''sessionId'', ''location'', ''userAgent''] = Inr rear"
    and ins: "cur_execute sparkify_db songplay_table_insert (front @ [fst ids, snd ids] @ rear) c2
      = Inr c'"
    unfolding songplay_step_def by (auto simp: bind_err_eq_Inr)
  from resolve_first_match [OF res] have ids: "ids = first_match (store c) (r ''song'')
      (r ''artist'') (r ''length'')" and st: "store c2 = store c" by simp_all
  from first_match_paired [OF reachable_keyed [OF assms(2)]] ids
  have paired: "fst ids = JNull \<longleftrightarrow> snd ids = JNull" by simp
  from assms(2) st have "reachable (store c2)" by simp
  from cur_execute_reachable [OF ins this] have r': "reachable (store c')" .
  from resolve_executed [OF res] getattrs_project [OF front] getattrs_project [OF rear]
    cur_execute_executed [OF ins]
  have "executed c' = executed c @ songplay_trace r ids"
    by (simp add: songplay_trace_def songplay_data_def)
  with paired r' show ?thesis by blast
qed

lemma songplay_loop_paired:
  "for_each (songplay_step sparkify_db cols) events c = Inr c' \<Longrightarrow> reachable (store c) \<Longrightarrow>
   \<exists>ids. length ids = length events \<and>
     executed c' = executed c @ concat (map2 songplay_trace events ids) \<and>
     (\<forall>i \<in> set ids. fst i = JNull \<longleftrightarrow> snd i = JNull) \<and> reachable (store c')"
proof (induction events arbitrary: c)
  case Nil
  then show ?case by simp
next
  case (Cons r events)
  from Cons.prems(1) obtain c1 where c1: "songplay_step sparkify_db cols r c = Inr c1"
    and rest: "for_each (songplay_step sparkify_db cols) events c1 = Inr c'"
    by (auto simp: bind_err_eq_Inr)
  from songplay_step_paired [OF c1 Cons.prems(2)] obtain i
    where i: "executed c1 = executed c @ songplay_trace r i"
      "fst i = JNull \<longleftrightarrow> snd i = JNull" "reachable (store c1)"
    by blast
  from Cons.IH [OF rest i(3)] obtain ids where ids: "length ids = length events"
    "executed c' = executed c1 @ concat (map2 songplay_trace events ids)"
    "\<forall>i \<in> set ids. fst i = JNull \<longleftrightarrow> snd i = JNull" "reachable (store c')" by blast
  from i ids have "length (i # ids) = length (r # events) \<and>
     executed c' = executed c @ concat (map2 songplay_trace (r # events) (i # ids)) \<and>
     (\<forall>j \<in> set (i # ids). fst j = JNull \<longleftrightarrow> snd j = JNull) \<and> reachable (store c')"
    by simp
  then show ?case by blast
qed

lemma process_log_file_paired:
  assumes "process_log_file sparkify_db c filepath = Inr c'" and "reachable (store c)"
  shows "\<exists>recs ids. filepath = File (Some recs) \<and> length ids = length (events_of recs) \<and>
     executed c' = executed c @ log_trace (events_of recs) ids \<and>
     (\<forall>i \<in> set ids. fst i = JNull \<longleftrightarrow> snd i = JNull) \<and> reachable (store c')"
proof -
  from assms(1) obtain df events c1 c2 where df: "read_json filepath = Inr df"
    and ev: "convert_ts (filter next_song (rows df)) = Inr events"
    and t: "for_each (cur_execute sparkify_db time_table_insert) (map time_data events) c = Inr c1"
    and u: "for_each (cur_execute sparkify_db user_table_insert)
        (map (project user_columns) events) c1 = Inr c2"
    and s: "for_each (songplay_step sparkify_db (columns df)) events c2 = Inr c'"
    unfolding process_log_file_def by (auto simp: bind_err_eq_Inr)
  from df obtain recs where recs: "filepath = File (Some recs)" and rws: "rows df = map to_row recs"
    by (auto simp: read_json_def split: node.splits option.splits)
  from convert_ts_stamp [OF ev] rws have events: "events = events_of recs"
    by (simp add: events_of_def)
  from for_each_execute_reachable [OF t assms(2)] have "reachable (store c1)" .
  from for_each_execute_reachable [OF u this] have "reachable (store c2)" .
  from songplay_loop_paired [OF s this] obtain ids where ids: "length ids = length events"
    "executed c' = executed c2 @ concat (map2 songplay_trace events ids)"
    "\<forall>i \<in> set ids. fst i = JNull \<longleftrightarrow> snd i = JNull" "reachable (store c')" by blast
  from for_each_execute [OF t] for_each_execute [OF u] ids events
  have "executed c' = executed c @ log_trace (events_of recs) ids"
    by (simp add: log_trace_def comp_def)
  with recs ids events show ?thesis by blast
qed

lemma fake_catalog_reachable: "reachable fake_catalog"
proof -
  let ?st1 = "empty_tables
     \<lparr>songs := [(JStr ''S1'', JStr ''Fake Song'', JStr ''A1'', JNum 2001, JNum 200)]\<rparr>"
  have s1: "sparkify_db song_table_insert
      [JStr ''S1'', JStr ''Fake Song'', JStr ''A1'', JNum 2001, JNum 200] empty_tables =
      Inr (?st1, [])"
    by (simp add: sparkify_db_def empty_tables_def)
  have s2: "sparkify_db artist_table_insert
      [JStr ''A1'', JStr ''Fake Artist'', JStr ''Lisbon'', JNull, JNull] ?st1 =
      Inr (fake_catalog, [])"
    by (simp add: sparkify_db_def empty_tables_def fake_catalog_def)
  from reachable_step [OF reachable_step [OF reachable_empty s1] s2] show ?thesis .
qed

lemma sample_log_runs_on_catalog:
  "\<exists>c'. process_log_file sparkify_db (new_cursor fake_catalog) (File (Some sample_log)) = Inr c'"
  by (simp add: model_defs fake_catalog_def)

lemma process_files_append:
  "process_files func n i (pre @ post) w =
     (case process_files func n i pre w of
        (w', Some e) \<Rightarrow> (w', Some e)
      | (w', None) \<Rightarrow> process_files func n (i + length pre) post w')"
proof (induction pre arbitrary: i w)
  case Nil
  show ?case by simp
next
  case (Cons f pre)
  show ?case
  proof (cases "func (cursor_state w) (snd f)")
    case (Inl e)
    then show ?thesis by simp
  next
    case (Inr cnew)
    then show ?thesis by (simp add: Cons.IH split: prod.splits option.splits)
  qed
qed

lemma process_files_committed:
  "process_files func n i fs w = (w', r) \<Longrightarrow> committed w = store (cursor_state w) \<Longrightarrow>
   committed w' = store (cursor_state w')"
proof (induction fs arbitrary: i w)
  case Nil
  then show ?case by simp
next
  case (Cons f fs)
  show ?case
  proof (cases "func (cursor_state w) (snd f)")
    case (Inl e)
    with Cons.prems show ?thesis by simp
  next
    case (Inr cnew)
    with Cons.prems have "process_files func n (Suc i) fs
       (w\<lparr>cursor_state := cnew, committed := store cnew,
          printed := printed w @ [files_processed i n]\<rparr>) = (w', r)"
      by simp
    from Cons.IH [OF this] show ?thesis by simp
  qed
qed

lemma song_fs_files:
  "all_files (song_fs third) ''data/song_data'' =
     [(''data/song_data/a.json'', File (Some [sample_song])),
      (''data/song_data/b.json'', File None),
      (''data/song_data/c.json'', File third)]"
  by (simp add: all_files_def song_fs_def glob_dir_def glob_json_def path_join_def)

lemma sample_song_stored:
  "process_song_file sparkify_db (new_cursor empty_tables) (File (Some [sample_song])) =
     Inr \<lparr>store = fake_catalog,
          executed =
            [(song_table_insert,
              [JStr ''S1'', JStr ''Fake Song'', JStr ''A1'', JNum 2001, JNum 200]),
             (artist_table_insert,
              [JStr ''A1'', JStr ''Fake Artist'', JStr ''Lisbon'', JNull, JNull])],
          pending = []\<rparr>"
  by (simp add: model_defs fake_catalog_def)

lemma malformed_fails: "process_song_file db c (File None) = Inl ParseError"
  by (simp add: process_song_file_def read_json_def bind_err_def)









section \<open>Claims\<close>



text \<open>
  C2. The catalog lookup of lines 73 to 79 on (song title, artist name, duration), run
  against the store modelled from the spec: when exactly one row of the joined catalog
  matches it returns that row's (song id, artist id), and when none matches it returns
  (null, null). For the catalog of Song S1 (\<^verbatim>\<open>Fake Song\<close>, duration 200) of Artist
  A1 (\<^verbatim>\<open>Fake Artist\<close>), the event (\<^verbatim>\<open>Fake Song\<close>, \<^verbatim>\<open>Fake Artist\<close>,
  200) resolves to (S1, A1) and the event (\<^verbatim>\<open>Unknown\<close>, \<^verbatim>\<open>Nobody\<close>, 1) to
  (null, null).
\<close>

theorem resolver_lookup:
  assumes "{''song'', ''artist'', ''length''} \<subseteq> set cols"
  shows "(filter (matches (r ''song'') (r ''artist'') (r ''length'')) (catalog (store c)) =
            [(song_id, t, d, artist_id, n)] \<longrightarrow>
          (\<exists>c'. resolve sparkify_db cols r c = Inr ((song_id, artist_id), c'))) \<and>
         (filter (matches (r ''song'') (r ''artist'') (r ''length'')) (catalog (store c)) = [] \<longrightarrow>
          (\<exists>c'. resolve sparkify_db cols r c = Inr ((JNull, JNull), c'))) \<and>
         catalog fake_catalog =
           [(JStr ''S1'', JStr ''Fake Song'', JNum 200, JStr ''A1'', JStr ''Fake Artist'')] \<and>
         (\<exists>c'. resolve sparkify_db log_columns
            (to_row (sample_event ''NextSong'' 1678887900000 ''Fake Song'' ''Fake Artist'' 200))
            (new_cursor fake_catalog) = Inr ((JStr ''S1'', JStr ''A1''), c')) \<and>
         (\<exists>c'. resolve sparkify_db log_columns
            (to_row (sample_event ''NextSong'' 1678887900000 ''Unknown'' ''Nobody'' 1))
            (new_cursor fake_catalog) = Inr ((JNull, JNull), c'))"
proof (intro conjI impI)
  assume "filter (matches (r ''song'') (r ''artist'') (r ''length'')) (catalog (store c)) =
            [(song_id, t, d, artist_id, n)]"
  with resolve_succeeds [OF assms, of r c]
  show "\<exists>c'. resolve sparkify_db cols r c = Inr ((song_id, artist_id), c')"
    by (simp add: first_match_def)
next
  assume "filter (matches (r ''song'') (r ''artist'') (r ''length'')) (catalog (store c)) = []"
  with resolve_succeeds [OF assms, of r c]
  show "\<exists>c'. resolve sparkify_db cols r c = Inr ((JNull, JNull), c')"
    by (simp add: first_match_def)
next
  show "catalog fake_catalog =
      [(JStr ''S1'', JStr ''Fake Song'', JNum 200, JStr ''A1'', JStr ''Fake Artist'')]"
    by (simp add: fake_catalog_def catalog_def empty_tables_def sql_eq_def)
next
  have cols: "{''song'', ''artist'', ''length''} \<subseteq> set log_columns"
    by (simp add: log_columns_def sample_event_def)
  have "first_match (store (new_cursor fake_catalog))
      (to_row (sample_event ''NextSong'' 1678887900000 ''Fake Song'' ''Fake Artist'' 200) ''song'')
      (to_row (sample_event ''NextSong'' 1678887900000 ''Fake Song'' ''Fake Artist'' 200) ''artist'')
      (to_row (sample_event ''NextSong'' 1678887900000 ''Fake Song'' ''Fake Artist'' 200) ''length'')
      = (JStr ''S1'', JStr ''A1'')"
    by (simp add: first_match_def fake_catalog_def catalog_def empty_tables_def sql_eq_def
        matches_def new_cursor_def to_row_def sample_event_def)
  with resolve_succeeds [OF cols]
  show "\<exists>c'. resolve sparkify_db log_columns
            (to_row (sample_event ''NextSong'' 1678887900000 ''Fake Song'' ''Fake Artist'' 200))
            (new_cursor fake_catalog) = Inr ((JStr ''S1'', JStr ''A1''), c')"
    by metis
next
  have cols: "{''song'', ''artist'', ''length''} \<subseteq> set log_columns"
    by (simp add: log_columns_def sample_event_def)
  have "first_match (store (new_cursor fake_catalog))
      (to_row (sample_event ''NextSong'' 1678887900000 ''Unknown'' ''Nobody'' 1) ''song'')
      (to_row (sample_event ''NextSong'' 1678887900000 ''Unknown'' ''Nobody'' 1) ''artist'')
      (to_row (sample_event ''NextSong'' 1678887900000 ''Unknown'' ''Nobody'' 1) ''length'')
      = (JNull, JNull)"
    by (simp add: first_match_def fake_catalog_def catalog_def empty_tables_def sql_eq_def
        matches_def new_cursor_def to_row_def sample_event_def)
  with resolve_succeeds [OF cols]
  show "\<exists>c'. resolve sparkify_db log_columns
            (to_row (sample_event ''NextSong'' 1678887900000 ''Unknown'' ''Nobody'' 1))
            (new_cursor fake_catalog) = Inr ((JNull, JNull), c')"
    by metis
qed

theorem resolver_lookup_witness:
  "{''song'', ''artist'', ''length''} \<subseteq> set log_columns \<and>
   filter (matches (JStr ''Fake Song'') (JStr ''Fake Artist'') (JNum 200)) (catalog fake_catalog) =
     [(JStr ''S1'', JStr ''Fake Song'', JNum 200, JStr ''A1'', JStr ''Fake Artist'')] \<and>
   (\<exists>c'. resolve sparkify_db log_columns
      (to_row (sample_event ''NextSong'' 1678887900000 ''Fake Song'' ''Fake Artist'' 200))
      (new_cursor fake_catalog) = Inr ((JStr ''S1'', JStr ''A1''), c'))"
proof -
  let ?e = "to_row (sample_event ''NextSong'' 1678887900000 ''Fake Song'' ''Fake Artist'' 200)"
  have cols: "{''song'', ''artist'', ''length''} \<subseteq> set log_columns"
    by (simp add: log_columns_def sample_event_def)
  have cat: "catalog fake_catalog =
      [(JStr ''S1'', JStr ''Fake Song'', JNum 200, JStr ''A1'', JStr ''Fake Artist'')]"
    by (simp add: fake_catalog_def catalog_def empty_tables_def sql_eq_def)
  have m: "filter (matches (JStr ''Fake Song'') (JStr ''Fake Artist'') (JNum 200))
      (catalog fake_catalog) =
     [(JStr ''S1'', JStr ''Fake Song'', JNum 200, JStr ''A1'', JStr ''Fake Artist'')]"
    by (simp add: cat matches_def sql_eq_def)
  have e: "?e ''song'' = JStr ''Fake Song''" "?e ''artist'' = JStr ''Fake Artist''"
    "?e ''length'' = JNum 200"
    by (simp_all add: to_row_def sample_event_def)
  have st: "store (new_cursor fake_catalog) = fake_catalog"
    by (simp add: new_cursor_def)
  from resolver_lookup [OF cols, of ?e "new_cursor fake_catalog" "JStr ''S1''" "JStr ''Fake Song''"
      "JNum 200" "JStr ''A1''" "JStr ''Fake Artist''"]
  have "\<exists>c'. resolve sparkify_db log_columns ?e (new_cursor fake_catalog) =
      Inr ((JStr ''S1'', JStr ''A1''), c')"
    unfolding e st using m by blast
  with cols m show ?thesis by blast
qed

text \<open>
  C3. Against the store modelled from the spec, in any state reached from the empty
  tables by its statements: every Songplay row that a completed run of
  \<^verbatim>\<open>process_log_file\<close> inserts has eight fields, and its song identifier (field 3)
  is null exactly when its artist identifier (field 4) is null. The store the run leaves
  is again such a state.
\<close>

theorem songplay_ids_paired:
  assumes "reachable (store c)" and "process_log_file sparkify_db c filepath = Inr c'"
  shows "(\<forall>p \<in> set (inserted songplay_table_insert c c').
           length p = 8 \<and> (p ! 3 = JNull \<longleftrightarrow> p ! 4 = JNull)) \<and>
         reachable (store c')"
proof -
  from process_log_file_paired [OF assms(2) assms(1)] obtain recs ids
    where len: "length ids = length (events_of recs)"
      and tr: "executed c' = executed c @ log_trace (events_of recs) ids"
      and paired: "\<forall>i \<in> set ids. fst i = JNull \<longleftrightarrow> snd i = JNull"
      and r': "reachable (store c')"
    by blast
  have ins: "inserted songplay_table_insert c c' = map2 songplay_data (events_of recs) ids"
    by (simp add: inserted_append [OF tr] filter_log_trace [OF len])
  have "\<forall>p \<in> set (inserted songplay_table_insert c c').
           length p = 8 \<and> (p ! 3 = JNull \<longleftrightarrow> p ! 4 = JNull)"
  proof
    fix p assume "p \<in> set (inserted songplay_table_insert c c')"
    then obtain e i where i: "i \<in> set ids" and p: "p = songplay_data e i"
      unfolding ins by (auto dest: set_zip_rightD)
    from paired i have "fst i = JNull \<longleftrightarrow> snd i = JNull" by blast
    with p show "length p = 8 \<and> (p ! 3 = JNull \<longleftrightarrow> p ! 4 = JNull)"
      by (simp add: songplay_data_def project_def)
  qed
  with r' show ?thesis by blast
qed

theorem songplay_ids_paired_witness:
  "reachable (store (new_cursor fake_catalog)) \<and>
   (\<exists>c'. process_log_file sparkify_db (new_cursor fake_catalog) (File (Some sample_log)) = Inr c' \<and>
      (\<forall>p \<in> set (inserted songplay_table_insert (new_cursor fake_catalog) c').
         length p = 8 \<and> (p ! 3 = JNull \<longleftrightarrow> p ! 4 = JNull)) \<and>
      reachable (store c'))"
proof -
  have r: "reachable (store (new_cursor fake_catalog))"
    using fake_catalog_reachable by (simp add: new_cursor_def)
  from sample_log_runs_on_catalog obtain c'
    where run: "process_log_file sparkify_db (new_cursor fake_catalog) (File (Some sample_log)) = Inr c'"
    by blast
  from songplay_ids_paired [OF r run] r run show ?thesis by blast
qed



text \<open>
  C5. \<^verbatim>\<open>process_data\<close> commits after each file: when the handler completes on a
  file, the next file starts from a connection whose committed store is the store that
  handler left. When the handler raises on a file, the run ends with that exception, no
  later file is handled (the result does not depend on them), and the committed store
  is the store left by the files before it. With three catalog files of which the second
  is malformed, the run ends with \<open>ParseError\<close>, the Song and Artist rows of the
  first file are committed, one file is reported as processed, and the result is the
  same whatever the third file holds.
\<close>

theorem abort_keeps_commits:
  "(func (cursor_state w) (snd f) = Inr cnew \<longrightarrow>
      process_files func n i (f # rest) w =
      process_files func n (Suc i) rest
        (w\<lparr>cursor_state := cnew, committed := store cnew,
           printed := printed w @ [files_processed i n]\<rparr>)) \<and>
   (process_files func n i pre w = (w1, None) \<and> func (cursor_state w1) (snd f) = Inl e \<longrightarrow>
      process_files func n i (pre @ f # post) w = (w1, Some e) \<and>
      (pre \<noteq> [] \<longrightarrow> committed w1 = store (cursor_state w1))) \<and>
   process_data (process_song_file sparkify_db) (song_fs third) ''data/song_data''
       (new_world empty_tables) =
     (\<lparr>cursor_state =
         \<lparr>store = fake_catalog,
          executed =
            [(song_table_insert,
              [JStr ''S1'', JStr ''Fake Song'', JStr ''A1'', JNum 2001, JNum 200]),
             (artist_table_insert,
              [JStr ''A1'', JStr ''Fake Artist'', JStr ''Lisbon'', JNull, JNull])],
          pending = []\<rparr>,
       committed = fake_catalog,
       printed = [files_found 3 ''data/song_data'', files_processed 1 3]\<rparr>,
      Some ParseError) \<and>
   songs fake_catalog = [(JStr ''S1'', JStr ''Fake Song'', JStr ''A1'', JNum 2001, JNum 200)] \<and>
   artists fake_catalog = [(JStr ''A1'', JStr ''Fake Artist'', JStr ''Lisbon'', JNull, JNull)]"
proof (intro conjI impI)
  assume "func (cursor_state w) (snd f) = Inr cnew"
  then show "process_files func n i (f # rest) w =
      process_files func n (Suc i) rest
        (w\<lparr>cursor_state := cnew, committed := store cnew,
           printed := printed w @ [files_processed i n]\<rparr>)"
    by simp
next
  assume a: "process_files func n i pre w = (w1, None) \<and> func (cursor_state w1) (snd f) = Inl e"
  then show "process_files func n i (pre @ f # post) w = (w1, Some e)"
    by (simp add: process_files_append)
next
  assume a: "process_files func n i pre w = (w1, None) \<and> func (cursor_state w1) (snd f) = Inl e"
    and ne: "pre \<noteq> []"
  from ne obtain g pre' where pre: "pre = g # pre'" by (cases pre) auto
  from a pre obtain cnew where g: "func (cursor_state w) (snd g) = Inr cnew"
    and rest: "process_files func n (Suc i) pre'
       (w\<lparr>cursor_state := cnew, committed := store cnew,
          printed := printed w @ [files_processed i n]\<rparr>) = (w1, None)"
    by (cases "func (cursor_state w) (snd g)") auto
  from process_files_committed [OF rest] show "committed w1 = store (cursor_state w1)"
    by simp
next
  show "process_data (process_song_file sparkify_db) (song_fs third) ''data/song_data''
       (new_world empty_tables) =
     (\<lparr>cursor_state =
         \<lparr>store = fake_catalog,
          executed =
            [(song_table_insert,
              [JStr ''S1'', JStr ''Fake Song'', JStr ''A1'', JNum 2001, JNum 200]),
             (artist_table_insert,
              [JStr ''A1'', JStr ''Fake Artist'', JStr ''Lisbon'', JNull, JNull])],
          pending = []\<rparr>,
       committed = fake_catalog,
       printed = [files_found 3 ''data/song_data'', files_processed 1 3]\<rparr>,
      Some ParseError)"
    unfolding process_data_def song_fs_files
    by (simp add: new_world_def sample_song_stored malformed_fails)
next
  show "songs fake_catalog = [(JStr ''S1'', JStr ''Fake Song'', JStr ''A1'', JNum 2001, JNum 200)]"
    by (simp add: fake_catalog_def)
next
  show "artists fake_catalog =
      [(JStr ''A1'', JStr ''Fake Artist'', JStr ''Lisbon'', JNull, JNull)]"
    by (simp add: fake_catalog_def)
qed

theorem abort_keeps_commits_witness:
  "process_files (process_song_file sparkify_db) 3 1
       [(''data/song_data/a.json'', File (Some [sample_song]))]
       ((new_world empty_tables)\<lparr>printed := [files_found 3 ''data/song_data'']\<rparr>) =
     (first_committed, None) \<and>
   process_song_file sparkify_db (cursor_state first_committed) (File None) = Inl ParseError \<and>
   process_files (process_song_file sparkify_db) 3 1
       ([(''data/song_data/a.json'', File (Some [sample_song]))] @
        (''data/song_data/b.json'', File None) #
        [(''data/song_data/c.json'', File (Some [other_song]))])
       ((new_world empty_tables)\<lparr>printed := [files_found 3 ''data/song_data'']\<rparr>) =
     (first_committed, Some ParseError) \<and>
   committed first_committed = store (cursor_state first_committed) \<and>
   songs (committed first_committed) =
     [(JStr ''S1'', JStr ''Fake Song'', JStr ''A1'', JNum 2001, JNum 200)]"
proof -
  let ?w = "(new_world empty_tables)\<lparr>printed := [files_found 3 ''data/song_data'']\<rparr>"
  let ?pre = "[(''data/song_data/a.json'', File (Some [sample_song]))]"
  have pre: "process_files (process_song_file sparkify_db) 3 1 ?pre ?w = (first_committed, None)"
    by (simp add: new_world_def sample_song_stored first_committed_def)
  have bad: "process_song_file sparkify_db (cursor_state first_committed)
      (snd (''data/song_data/b.json'', File None)) = Inl ParseError"
    by (simp add: malformed_fails)
  note w = abort_keeps_commits [where func = "process_song_file sparkify_db" and w = ?w
      and f = "(''data/song_data/b.json'', File None)" and n = 3 and i = 1 and pre = ?pre
      and ?w1.0 = first_committed and e = ParseError
      and post = "[(''data/song_data/c.json'', File (Some [other_song]))]"]
  from w pre bad have
    "process_files (process_song_file sparkify_db) 3 1
       (?pre @ (''data/song_data/b.json'', File None) #
        [(''data/song_data/c.json'', File (Some [other_song]))]) ?w =
     (first_committed, Some ParseError)"
    and "committed first_committed = store (cursor_state first_committed)"
    by blast+
  moreover have "songs (committed first_committed) =
     [(JStr ''S1'', JStr ''Fake Song'', JStr ''A1'', JNum 2001, JNum 200)]"
    by (simp add: first_committed_def fake_catalog_def)
  ultimately show ?thesis using pre bad by simp
qed



text \<open>
  C7. A completed run of \<^verbatim>\<open>process_log_file\<close> inserts one Songplay row per
  filtered event, in the order of the events in the file; the Time row of the event at
  position \<open>i\<close> is statement \<open>i\<close> of the run and its Songplay row is statement
  \<open>2n + 2i + 1\<close> (of \<open>4n\<close>), so the Time row of an event is inserted before
  the Songplay row of that event.
\<close>

theorem songplay_order:
  assumes "process_log_file db c filepath = Inr c'"
  shows "\<exists>recs ids. filepath = File (Some recs) \<and>
    length ids = length (events_of recs) \<and>
    inserted songplay_table_insert c c' = map2 songplay_data (events_of recs) ids \<and>
    (\<forall>i < length (events_of recs).
       emitted c c' ! i = (time_table_insert, time_data (events_of recs ! i)) \<and>
       emitted c c' ! (2 * length (events_of recs) + 2 * i + 1) =
         (songplay_table_insert, songplay_data (events_of recs ! i) (ids ! i)) \<and>
       i < 2 * length (events_of recs) + 2 * i + 1 \<and>
       2 * length (events_of recs) + 2 * i + 1 < length (emitted c c'))"
proof -
  from process_log_file_trace [OF assms] obtain recs ids
    where f: "filepath = File (Some recs)" and len: "length ids = length (events_of recs)"
      and tr: "executed c' = executed c @ log_trace (events_of recs) ids"
    by blast
  have em: "emitted c c' = log_trace (events_of recs) ids"
    using tr by (rule emitted_append)
  have ins: "inserted songplay_table_insert c c' = map2 songplay_data (events_of recs) ids"
    by (simp add: inserted_append [OF tr] filter_log_trace [OF len])
  have "\<forall>i < length (events_of recs).
       emitted c c' ! i = (time_table_insert, time_data (events_of recs ! i)) \<and>
       emitted c c' ! (2 * length (events_of recs) + 2 * i + 1) =
         (songplay_table_insert, songplay_data (events_of recs ! i) (ids ! i)) \<and>
       i < 2 * length (events_of recs) + 2 * i + 1 \<and>
       2 * length (events_of recs) + 2 * i + 1 < length (emitted c c')"
  proof (intro allI impI)
    fix i assume i: "i < length (events_of recs)"
    from log_trace_nth(1,4) [OF len i] length_log_trace [OF len] i
    show "emitted c c' ! i = (time_table_insert, time_data (events_of recs ! i)) \<and>
       emitted c c' ! (2 * length (events_of recs) + 2 * i + 1) =
         (songplay_table_insert, songplay_data (events_of recs ! i) (ids ! i)) \<and>
       i < 2 * length (events_of recs) + 2 * i + 1 \<and>
       2 * length (events_of recs) + 2 * i + 1 < length (emitted c c')"
      by (simp add: em)
  qed
  with f len ins show ?thesis by blast
qed

theorem songplay_order_witness:
  "\<exists>c' ids.
     process_log_file sparkify_db (new_cursor empty_tables) (File (Some sample_log)) = Inr c' \<and>
     length (events_of sample_log) = 2 \<and> length ids = 2 \<and>
     inserted songplay_table_insert (new_cursor empty_tables) c' =
       map2 songplay_data (events_of sample_log) ids \<and>
     emitted (new_cursor empty_tables) c' ! 0 =
       (time_table_insert, time_data (events_of sample_log ! 0)) \<and>
     emitted (new_cursor empty_tables) c' ! 5 =
       (songplay_table_insert, songplay_data (events_of sample_log ! 0) (ids ! 0)) \<and>
     emitted (new_cursor empty_tables) c' ! 1 =
       (time_table_insert, time_data (events_of sample_log ! 1)) \<and>
     emitted (new_cursor empty_tables) c' ! 7 =
       (songplay_table_insert, songplay_data (events_of sample_log ! 1) (ids ! 1))"
proof -
  from sample_log_runs obtain c'
    where run: "process_log_file sparkify_db (new_cursor empty_tables) (File (Some sample_log)) = Inr c'"
    by blast
  have n: "length (events_of sample_log) = 2"
    by (simp add: length_events_of) (simp add: sample_log_def sample_event_def to_row_def)
  from songplay_order [OF run] obtain ids where ids: "length ids = length (events_of sample_log)"
    "inserted songplay_table_insert (new_cursor empty_tables) c' =
       map2 songplay_data (events_of sample_log) ids"
    and nth: "\<forall>i < length (events_of sample_log).
       emitted (new_cursor empty_tables) c' ! i =
         (time_table_insert, time_data (events_of sample_log ! i)) \<and>
       emitted (new_cursor empty_tables) c' ! (2 * length (events_of sample_log) + 2 * i + 1) =
         (songplay_table_insert, songplay_data (events_of sample_log ! i) (ids ! i)) \<and>
       i < 2 * length (events_of sample_log) + 2 * i + 1 \<and>
       2 * length (events_of sample_log) + 2 * i + 1 < length (emitted (new_cursor empty_tables) c')"
    by auto
  from nth [rule_format, of 0] nth [rule_format, of 1] n ids run show ?thesis
    by (intro exI [of _ c'] exI [of _ ids]) simp
qed






text \<open>
  C10. The statements of a completed run of \<^verbatim>\<open>process_log_file\<close> come in three
  phases: first all the Time inserts, then all the User inserts, then only catalog
  lookups and Songplay inserts.
\<close>

theorem log_file_phases:
  assumes "process_log_file db c filepath = Inr c'"
  shows "\<exists>T U S. emitted c c' = T @ U @ S \<and>
    (\<forall>x \<in> set T. fst x = time_table_insert) \<and>
    (\<forall>x \<in> set U. fst x = user_table_insert) \<and>
    (\<forall>x \<in> set S. fst x = song_select \<or> fst x = songplay_table_insert) \<and>
    map snd T = inserted time_table_insert c c' \<and>
    map snd U = inserted user_table_insert c c'"
proof -
  from process_log_file_trace [OF assms] obtain recs ids
    where len: "length ids = length (events_of recs)"
      and tr: "executed c' = executed c @ log_trace (events_of recs) ids"
    by blast
  let ?T = "map (\<lambda>r. (time_table_insert, time_data r)) (events_of recs)"
  let ?U = "map (\<lambda>r. (user_table_insert, project user_columns r)) (events_of recs)"
  let ?S = "concat (map2 songplay_trace (events_of recs) ids)"
  have em: "emitted c c' = ?T @ ?U @ ?S"
    using emitted_append [OF tr] by (simp add: log_trace_def)
  have S: "\<forall>x \<in> set ?S. fst x = song_select \<or> fst x = songplay_table_insert"
    by (auto simp: songplay_trace_def)
  have T: "map snd ?T = inserted time_table_insert c c'"
    by (simp add: inserted_append [OF tr] filter_log_trace [OF len] comp_def)
  have U: "map snd ?U = inserted user_table_insert c c'"
    by (simp add: inserted_append [OF tr] filter_log_trace [OF len] comp_def)
  have "emitted c c' = ?T @ ?U @ ?S \<and>
    (\<forall>x \<in> set ?T. fst x = time_table_insert) \<and>
    (\<forall>x \<in> set ?U. fst x = user_table_insert) \<and>
    (\<forall>x \<in> set ?S. fst x = song_select \<or> fst x = songplay_table_insert) \<and>
    map snd ?T = inserted time_table_insert c c' \<and>
    map snd ?U = inserted user_table_insert c c'"
    using em S T U by auto
  then show ?thesis by blast
qed

theorem log_file_phases_witness:
  "\<exists>c' T U S.
     process_log_file sparkify_db (new_cursor empty_tables) (File (Some sample_log)) = Inr c' \<and>
     emitted (new_cursor empty_tables) c' = T @ U @ S \<and>
     (\<forall>x \<in> set T. fst x = time_table_insert) \<and>
     (\<forall>x \<in> set U. fst x = user_table_insert) \<and>
     (\<forall>x \<in> set S. fst x = song_select \<or> fst x = songplay_table_insert) \<and>
     map snd T = inserted time_table_insert (new_cursor empty_tables) c' \<and>
     map snd U = inserted user_table_insert (new_cursor empty_tables) c'"
proof -
  from sample_log_runs obtain c'
    where run: "process_log_file sparkify_db (new_cursor empty_tables) (File (Some sample_log)) = Inr c'"
    by blast
  from log_file_phases [OF run] run show ?thesis by blast
qed

end
